theory Spec2Isabelle
  imports Complex_Main "HOL-Library.Sublist" "HOL-Library.Char_ord" "HOL-Library.List_Lexorder"
begin

section \<open>Python values shared by the three scripts\<close>

text \<open>
  Exceptions are values. Every constructor is a subclass of Python's \<open>Exception\<close>, so the
  \<open>except Exception\<close> handlers of the scripts catch all of them. \<open>ClientError\<close> stands for any
  failure raised by a boto3 call.
\<close>

datatype exn =
  ClientError
| KeyError string
| TypeError
| ValueError
| AttributeError
| ZeroDivisionError


section \<open>health\_check\_script.py\<close>



















section \<open>The cloud services behind deploy\_script.py and rollback\_script.py\<close>

text \<open>
  What the boto3 clients return. An instance refresh carries its \<open>Status\<close>; an Auto Scaling
  group carries the id of its launch template, if it has one (\<open>asg['LaunchTemplate']\<close> raises
  \<open>KeyError\<close> otherwise); a launch template version carries its number and its user data.
\<close>

record instance_refresh =
  Status :: string
  PercentageComplete :: "nat option"

record auto_scaling_group =
  LaunchTemplate :: "string option"

record launch_template_version =
  VersionNumber :: int
  UserData :: "string option"

text \<open>
  The documents kept in the bucket: the dict \<open>create_deployment_record\<close> writes, the dict
  \<open>record_rollback\<close> writes, and an object that cannot be fetched or is not JSON.
\<close>

record deployment_record =
  rec_timestamp :: string
  rec_environment :: string
  rec_version :: string
  rec_image :: string
  rec_status :: string

text \<open>
  A rollback target version is the integer of \<open>--previous-version\<close> or the string found in a
  deployment record.
\<close>

datatype version_ref = VersionInt int | VersionStr string

record rollback_record =
  rb_timestamp :: string
  rb_environment :: string
  rb_action :: string
  rb_target_version :: "version_ref option"
  rb_target_image :: "string option"

datatype document =
  DeploymentDoc deployment_record
| RollbackDoc rollback_record
| Unreadable

record s3_object =
  Key :: string
  LastModified :: int
  Body :: document

text \<open>
  The answers of the services during one run. Calls made once per run have one answer; polled
  calls, \<open>put_object\<close>, the clock of the object store and \<open>datetime.now().isoformat()\<close> are
  indexed by the number of earlier calls of the same kind.
\<close>

record cloud =
  describe_auto_scaling_groups :: "exn + auto_scaling_group list"
  create_launch_template_version :: "exn + int"
  update_auto_scaling_group :: "exn option"
  start_instance_refresh :: "exn + string"
  describe_instance_refreshes :: "nat \<Rightarrow> exn + instance_refresh list"
  describe_target_health :: "nat \<Rightarrow> exn + string list"
  describe_launch_template_versions :: "exn + launch_template_version list"
  list_objects_error :: "exn option"
  put_object_error :: "nat \<Rightarrow> exn option"
  s3_clock :: "nat \<Rightarrow> int"
  isoformat_now :: "nat \<Rightarrow> string"

text \<open>
  What a run changes: the bucket \<open>{environment}-devops-artifacts\<close>, the log of the objects
  written with success, and the number of calls made so far of each indexed kind.
\<close>

record aws_state =
  bucket :: "s3_object list"
  written :: "(string \<times> document) list"
  put_calls :: nat
  clock_reads :: nat
  refresh_polls :: nat
  health_polls :: nat

text \<open>\<open>s3.put_object\<close>: the object stored under a key replaces any object with that key.\<close>

definition store_object :: "string \<Rightarrow> int \<Rightarrow> document \<Rightarrow> s3_object list \<Rightarrow> s3_object list" where
  "store_object key t body objs =
     \<lparr>Key = key, LastModified = t, Body = body\<rparr> # filter (\<lambda>obj. Key obj \<noteq> key) objs"

definition put_object :: "cloud \<Rightarrow> string \<Rightarrow> document \<Rightarrow> aws_state \<Rightarrow> (exn + unit) \<times> aws_state" where
  "put_object cl key body s =
     (case put_object_error cl (put_calls s) of
        Some e \<Rightarrow> (Inl e, s\<lparr>put_calls := put_calls s + 1\<rparr>)
      | None \<Rightarrow>
          (Inr (),
           s\<lparr>bucket := store_object key (s3_clock cl (put_calls s)) body (bucket s),
             written := written s @ [(key, body)],
             put_calls := put_calls s + 1\<rparr>))"

text \<open>
  \<open>s3.list_objects_v2(Prefix, MaxKeys)\<close>: the keys under the prefix in ascending order of
  their bytes, cut after \<open>MaxKeys\<close> of them.
\<close>

definition list_objects_v2 :: "s3_object list \<Rightarrow> string \<Rightarrow> nat \<Rightarrow> s3_object list" where
  "list_objects_v2 objs pfx max_keys =
     take max_keys (sort_key Key (filter (\<lambda>obj. prefix pfx (Key obj)) objs))"

text \<open>Python's \<open>sorted(xs, key=f, reverse=True)\<close>, which keeps equal keys in their order.\<close>

definition sorted_reverse :: "('a \<Rightarrow> int) \<Rightarrow> 'a list \<Rightarrow> 'a list" where
  "sorted_reverse f xs = rev (sort_key f (rev xs))"

section \<open>deploy\_script.py\<close>

text \<open>\<open>DeploymentManager.update_launch_template\<close>.\<close>

definition update_launch_template :: "cloud \<Rightarrow> string \<Rightarrow> exn + bool" where
  "update_launch_template cl img =
     (case describe_auto_scaling_groups cl of
        Inl e \<Rightarrow> Inl e
      | Inr groups \<Rightarrow>
          (case groups of
             [] \<Rightarrow> Inr False
           | asg # rest \<Rightarrow>
               (case LaunchTemplate asg of
                  None \<Rightarrow> Inl (KeyError ''LaunchTemplate'')
                | Some lt_id \<Rightarrow>
                    (case create_launch_template_version cl of
                       Inl e \<Rightarrow> Inl e
                     | Inr new_version \<Rightarrow>
                         (case update_auto_scaling_group cl of
                            Some e \<Rightarrow> Inl e
                          | None \<Rightarrow> Inr True)))))"

text \<open>
  \<open>monitor_refresh\<close>, the same loop in \<open>DeploymentManager\<close> and in \<open>RollbackManager\<close> (the
  two differ in what they log). \<open>polls n\<close> answers the \<open>n\<close>-th call of
  \<open>describe_instance_refreshes\<close>; the result comes with the number of calls made. The loop has
  no bound, so not returning is \<open>None\<close>.
\<close>

partial_function (option) monitor_refresh ::
  "(nat \<Rightarrow> exn + instance_refresh list) \<Rightarrow> nat \<Rightarrow> ((exn + bool) \<times> nat) option" where
  "monitor_refresh polls n =
     (case polls n of
        Inl e \<Rightarrow> Some (Inl e, n + 1)
      | Inr refreshes \<Rightarrow>
          (case refreshes of
             [] \<Rightarrow> Some (Inr False, n + 1)
           | refresh # rest \<Rightarrow>
               if Status refresh = ''Successful'' then Some (Inr True, n + 1)
               else if Status refresh \<in> set [''Cancelled'', ''Failed''] then Some (Inr False, n + 1)
               else monitor_refresh polls (n + 1)))"

text \<open>\<open>DeploymentManager.rolling_deployment\<close>.\<close>

definition rolling_deployment :: "cloud \<Rightarrow> string \<Rightarrow> aws_state \<Rightarrow> ((exn + bool) \<times> aws_state) option" where
  "rolling_deployment cl img s =
     (case update_launch_template cl img of
        Inl e \<Rightarrow> Some (Inl e, s)
      | Inr updated \<Rightarrow>
          if \<not> updated then Some (Inr False, s)
          else (case start_instance_refresh cl of
                  Inl e \<Rightarrow> Some (Inl e, s)
                | Inr refresh_id \<Rightarrow>
                    (case monitor_refresh (describe_instance_refreshes cl) (refresh_polls s) of
                       None \<Rightarrow> None
                     | Some (r, n) \<Rightarrow> Some (r, s\<lparr>refresh_polls := n\<rparr>))))"

text \<open>
  \<open>DeploymentManager.verify_deployment\<close>: at most \<open>max_attempts = 20\<close> polls of the target
  group. \<open>verify_attempts\<close> is the \<open>for\<close> loop with the number of attempts left.
\<close>

fun verify_attempts :: "(nat \<Rightarrow> exn + string list) \<Rightarrow> nat \<Rightarrow> nat \<Rightarrow> (exn + bool) \<times> nat" where
  "verify_attempts polls 0 n = (Inr False, n)"
| "verify_attempts polls (Suc left) n =
     (case polls n of
        Inl e \<Rightarrow> (Inl e, n + 1)
      | Inr states \<Rightarrow>
          (let total = length states;
               healthy = length (filter (\<lambda>st. st = ''healthy'') states)
           in if healthy = total \<and> total > 0 then (Inr True, n + 1)
              else verify_attempts polls left (n + 1)))"

definition verify_deployment :: "cloud \<Rightarrow> aws_state \<Rightarrow> (exn + bool) \<times> aws_state" where
  "verify_deployment cl s =
     (case verify_attempts (describe_target_health cl) 20 (health_polls s) of
        (r, n) \<Rightarrow> (r, s\<lparr>health_polls := n\<rparr>))"

text \<open>
  \<open>DeploymentManager.create_deployment_record\<close>: the key and the timestamp field come from
  two readings of the clock.
\<close>

definition create_deployment_record ::
  "cloud \<Rightarrow> string \<Rightarrow> string \<Rightarrow> string \<Rightarrow> string \<Rightarrow> aws_state \<Rightarrow> (exn + unit) \<times> aws_state" where
  "create_deployment_record cl env ver img st s =
     put_object cl (''deployments/'' @ isoformat_now cl (clock_reads s) @ ''.json'')
       (DeploymentDoc
          \<lparr>rec_timestamp = isoformat_now cl (clock_reads s + 1), rec_environment = env,
           rec_version = ver, rec_image = img, rec_status = st\<rparr>)
       (s\<lparr>clock_reads := clock_reads s + 2\<rparr>)"

text \<open>
  \<open>main\<close> of the deploy script. \<open>deploy_try\<close> is the body of its \<open>try\<close>, ending in the code
  given to \<open>sys.exit\<close> (a \<open>SystemExit\<close>, which \<open>except Exception\<close> does not catch) or in an
  exception; \<open>deploy_main\<close> adds the handler, whose own record write may raise.
\<close>

datatype exit_status = Exit int | Uncaught exn

definition deploy_try ::
  "cloud \<Rightarrow> string \<Rightarrow> string \<Rightarrow> string \<Rightarrow> aws_state \<Rightarrow> ((exn + int) \<times> aws_state) option" where
  "deploy_try cl env ver img s =
     (case rolling_deployment cl img s of
        None \<Rightarrow> None
      | Some (Inl e, s1) \<Rightarrow> Some (Inl e, s1)
      | Some (Inr success, s1) \<Rightarrow>
          if success
          then (case create_deployment_record cl env ver img ''success'' s1 of
                  (Inl e, s2) \<Rightarrow> Some (Inl e, s2)
                | (Inr u, s2) \<Rightarrow> Some (Inr 0, s2))
          else (case create_deployment_record cl env ver img ''failed'' s1 of
                  (Inl e, s2) \<Rightarrow> Some (Inl e, s2)
                | (Inr u, s2) \<Rightarrow> Some (Inr 1, s2)))"

definition deploy_main ::
  "cloud \<Rightarrow> string \<Rightarrow> string \<Rightarrow> string \<Rightarrow> aws_state \<Rightarrow> (exit_status \<times> aws_state) option" where
  "deploy_main cl env ver img s =
     (case deploy_try cl env ver img s of
        None \<Rightarrow> None
      | Some (Inr code, s2) \<Rightarrow> Some (Exit code, s2)
      | Some (Inl e, s2) \<Rightarrow>
          (case create_deployment_record cl env ver img ''error'' s2 of
             (Inl e', s3) \<Rightarrow> Some (Uncaught e', s3)
           | (Inr u, s3) \<Rightarrow> Some (Exit 1, s3)))"

section \<open>rollback\_script.py\<close>

text \<open>
  \<open>RollbackManager.get_deployment_history\<close>: a failure of the listing gives the empty
  history; an object that cannot be read is skipped.
\<close>

definition get_deployment_history :: "cloud \<Rightarrow> nat \<Rightarrow> aws_state \<Rightarrow> document list" where
  "get_deployment_history cl limit s =
     (case list_objects_error cl of
        Some e \<Rightarrow> []
      | None \<Rightarrow>
          (let contents = list_objects_v2 (bucket s) ''deployments/'' limit
           in if contents = [] then []
              else filter (\<lambda>data. data \<noteq> Unreadable)
                     (map Body (sorted_reverse LastModified contents))))"

text \<open>\<open>deployment.get('status')\<close>: only a deployment record has the field.\<close>

fun get_status :: "document \<Rightarrow> string option" where
  "get_status (DeploymentDoc d) = Some (rec_status d)"
| "get_status (RollbackDoc r) = None"
| "get_status Unreadable = None"

text \<open>The \<open>for\<close> loop of \<open>find_previous_successful_deployment\<close>.\<close>

fun first_successful :: "document list \<Rightarrow> document option" where
  "first_successful [] = None"
| "first_successful (deployment # history) =
     (if get_status deployment = Some ''success'' then Some deployment
      else first_successful history)"

definition find_previous_successful_deployment :: "cloud \<Rightarrow> aws_state \<Rightarrow> document option" where
  "find_previous_successful_deployment cl s =
     first_successful (get_deployment_history cl 20 s)"

text \<open>\<open>deployment['version']\<close> and \<open>deployment['image']\<close>.\<close>

fun get_version :: "document \<Rightarrow> exn + string" where
  "get_version (DeploymentDoc d) = Inr (rec_version d)"
| "get_version other = Inl (KeyError ''version'')"

fun get_image :: "document \<Rightarrow> exn + string" where
  "get_image (DeploymentDoc d) = Inr (rec_image d)"
| "get_image other = Inl (KeyError ''image'')"

text \<open>Python truthiness of the two command line values.\<close>

fun truthy_version :: "version_ref option \<Rightarrow> bool" where
  "truthy_version None = False"
| "truthy_version (Some (VersionInt n)) = (n \<noteq> 0)"
| "truthy_version (Some (VersionStr v)) = (v \<noteq> [])"

fun truthy_image :: "string option \<Rightarrow> bool" where
  "truthy_image None = False"
| "truthy_image (Some img) = (img \<noteq> [])"

text \<open>\<open>RollbackManager.get_launch_template_versions\<close>.\<close>

definition get_launch_template_versions :: "cloud \<Rightarrow> exn + launch_template_version list" where
  "get_launch_template_versions cl = describe_launch_template_versions cl"

text \<open>
  \<open>RollbackManager.find_matching_launch_template\<close>: \<open>target_image in user_data\<close> is a
  substring test, and raises \<open>TypeError\<close> when the image is \<open>None\<close>.
\<close>

fun find_matching_launch_template ::
  "launch_template_version list \<Rightarrow> string option \<Rightarrow> exn + int option" where
  "find_matching_launch_template [] target_image = Inr None"
| "find_matching_launch_template (v # versions) target_image =
     (case target_image of
        None \<Rightarrow> Inl TypeError
      | Some img \<Rightarrow>
          if sublist img (case UserData v of None \<Rightarrow> [] | Some user_data \<Rightarrow> user_data)
          then Inr (Some (VersionNumber v))
          else find_matching_launch_template versions target_image)"

text \<open>\<open>RollbackManager.create_rollback_version\<close>.\<close>

definition create_rollback_version :: "cloud \<Rightarrow> string option \<Rightarrow> exn + int" where
  "create_rollback_version cl target_image = create_launch_template_version cl"

text \<open>\<open>RollbackManager.record_rollback\<close>.\<close>

definition record_rollback ::
  "cloud \<Rightarrow> string \<Rightarrow> version_ref option \<Rightarrow> string option \<Rightarrow> aws_state \<Rightarrow> (exn + unit) \<times> aws_state" where
  "record_rollback cl env ver img s =
     put_object cl (''rollbacks/'' @ isoformat_now cl (clock_reads s) @ ''.json'')
       (RollbackDoc
          \<lparr>rb_timestamp = isoformat_now cl (clock_reads s + 1), rb_environment = env,
           rb_action = ''rollback'', rb_target_version = ver, rb_target_image = img\<rparr>)
       (s\<lparr>clock_reads := clock_reads s + 2\<rparr>)"

text \<open>
  \<open>RollbackManager.rollback_to_version\<close>, in two parts. \<open>rollback_target\<close> is its first
  \<open>if\<close>: with neither a version nor an image given, the target is read from the history, and
  \<open>None\<close> is the early \<open>return False\<close>. \<open>rollback_refresh\<close> is the rest of the method.
\<close>

definition rollback_target ::
  "cloud \<Rightarrow> version_ref option \<Rightarrow> string option \<Rightarrow> aws_state \<Rightarrow>
   exn + (version_ref option \<times> string option) option" where
  "rollback_target cl target_version target_image s =
     (if \<not> truthy_version target_version \<and> \<not> truthy_image target_image
      then (case find_previous_successful_deployment cl s of
              None \<Rightarrow> Inr None
            | Some deployment \<Rightarrow>
                (case get_version deployment of
                   Inl e \<Rightarrow> Inl e
                 | Inr ver \<Rightarrow>
                     (case get_image deployment of
                        Inl e \<Rightarrow> Inl e
                      | Inr img \<Rightarrow> Inr (Some (Some (VersionStr ver), Some img)))))
      else Inr (Some (target_version, target_image)))"

definition rollback_launch_template :: "cloud \<Rightarrow> string option \<Rightarrow> exn + bool" where
  "rollback_launch_template cl target_image =
     (case describe_auto_scaling_groups cl of
        Inl e \<Rightarrow> Inl e
      | Inr groups \<Rightarrow>
          (case groups of
             [] \<Rightarrow> Inr False
           | asg # rest \<Rightarrow>
               (case LaunchTemplate asg of
                  None \<Rightarrow> Inl (KeyError ''LaunchTemplate'')
                | Some lt_id \<Rightarrow>
                    (case get_launch_template_versions cl of
                       Inl e \<Rightarrow> Inl e
                     | Inr lt_versions \<Rightarrow>
                         (case find_matching_launch_template lt_versions target_image of
                            Inl e \<Rightarrow> Inl e
                          | Inr found \<Rightarrow>
                              (case (case found of
                                       None \<Rightarrow> create_rollback_version cl target_image
                                     | Some v \<Rightarrow>
                                         if v = 0 then create_rollback_version cl target_image
                                         else Inr v) of
                                 Inl e \<Rightarrow> Inl e
                               | Inr target_lt_version \<Rightarrow>
                                   (case update_auto_scaling_group cl of
                                      Some e \<Rightarrow> Inl e
                                    | None \<Rightarrow> Inr True)))))))"

definition rollback_refresh ::
  "cloud \<Rightarrow> string \<Rightarrow> version_ref option \<Rightarrow> string option \<Rightarrow> aws_state \<Rightarrow>
   ((exn + bool) \<times> aws_state) option" where
  "rollback_refresh cl env target_version target_image s =
     (case rollback_launch_template cl target_image of
        Inl e \<Rightarrow> Some (Inl e, s)
      | Inr pointed \<Rightarrow>
          if \<not> pointed then Some (Inr False, s)
          else (case start_instance_refresh cl of
                  Inl e \<Rightarrow> Some (Inl e, s)
                | Inr refresh_id \<Rightarrow>
                    (case monitor_refresh (describe_instance_refreshes cl) (refresh_polls s) of
                       None \<Rightarrow> None
                     | Some (Inl e, n) \<Rightarrow> Some (Inl e, s\<lparr>refresh_polls := n\<rparr>)
                     | Some (Inr success, n) \<Rightarrow>
                         if success
                         then (case record_rollback cl env target_version target_image
                                      (s\<lparr>refresh_polls := n\<rparr>) of
                                 (Inl e, s') \<Rightarrow> Some (Inl e, s')
                               | (Inr u, s') \<Rightarrow> Some (Inr True, s'))
                         else Some (Inr False, s\<lparr>refresh_polls := n\<rparr>))))"

definition rollback_to_version ::
  "cloud \<Rightarrow> string \<Rightarrow> version_ref option \<Rightarrow> string option \<Rightarrow> aws_state \<Rightarrow>
   ((exn + bool) \<times> aws_state) option" where
  "rollback_to_version cl env target_version target_image s =
     (case rollback_target cl target_version target_image s of
        Inl e \<Rightarrow> Some (Inl e, s)
      | Inr None \<Rightarrow> Some (Inr False, s)
      | Inr (Some (ver, img)) \<Rightarrow> rollback_refresh cl env ver img s)"

text \<open>\<open>main\<close> of the rollback script: the exit code.\<close>

definition rollback_main ::
  "cloud \<Rightarrow> string \<Rightarrow> int option \<Rightarrow> string option \<Rightarrow> aws_state \<Rightarrow> (int \<times> aws_state) option" where
  "rollback_main cl env previous_version img s =
     (case rollback_to_version cl env (map_option VersionInt previous_version) img s of
        None \<Rightarrow> None
      | Some (Inl e, s') \<Rightarrow> Some (1, s')
      | Some (Inr success, s') \<Rightarrow> Some (if success then 0 else 1, s'))"

section \<open>The history store in the words of the specification\<close>

text \<open>
  \<open>recent(limit)\<close>: up to \<open>limit\<close> records, newest first. \<open>findLatestSuccessful(searchLimit)\<close>:
  the first record of \<open>recent(searchLimit)\<close> whose status is success. These two follow the
  specification, not the source, and are compared with \<open>find_previous_successful_deployment\<close>.
\<close>

definition spec_recent :: "s3_object list \<Rightarrow> nat \<Rightarrow> document list" where
  "spec_recent objs limit =
     take limit (map Body (sorted_reverse LastModified
       (filter (\<lambda>obj. prefix ''deployments/'' (Key obj)) objs)))"

definition spec_findLatestSuccessful :: "s3_object list \<Rightarrow> nat \<Rightarrow> document option" where
  "spec_findLatestSuccessful objs searchLimit = first_successful (spec_recent objs searchLimit)"

section \<open>Concrete runs\<close>

text \<open>
  A cloud in which every call succeeds: the refresh is successful at the first poll, the
  target group has three healthy targets, and the clock stands still.
\<close>

definition steady_cloud :: cloud where
  "steady_cloud =
     \<lparr>describe_auto_scaling_groups = Inr [\<lparr>LaunchTemplate = Some ''lt-1''\<rparr>],
      create_launch_template_version = Inr 2,
      update_auto_scaling_group = None,
      start_instance_refresh = Inr ''refresh-1'',
      describe_instance_refreshes =
        (\<lambda>n. Inr [\<lparr>Status = ''Successful'', PercentageComplete = Some 100\<rparr>]),
      describe_target_health = (\<lambda>n. Inr [''healthy'', ''healthy'', ''healthy'']),
      describe_launch_template_versions = Inr [],
      list_objects_error = None,
      put_object_error = (\<lambda>n. None),
      s3_clock = (\<lambda>n. 100 + int n),
      isoformat_now = (\<lambda>n. ''2024-02-01T00:00:00'')\<rparr>"

text \<open>The refresh is in progress at the first two polls.\<close>

definition slow_cloud :: cloud where
  "slow_cloud =
     steady_cloud\<lparr>describe_instance_refreshes :=
       (\<lambda>n. Inr [\<lparr>Status = (if n < 2 then ''InProgress'' else ''Successful''),
                   PercentageComplete = Some 50\<rparr>])\<rparr>"

text \<open>The refresh succeeds while the target group has no target at all.\<close>

definition emptied_cloud :: cloud where
  "emptied_cloud = steady_cloud\<lparr>describe_target_health := (\<lambda>n. Inr [])\<rparr>"

text \<open>The refresh fails; the refresh id is unknown; the first target poll finds one target draining.\<close>

definition failed_cloud :: cloud where
  "failed_cloud =
     steady_cloud\<lparr>describe_instance_refreshes :=
       (\<lambda>n. Inr [\<lparr>Status = ''Failed'', PercentageComplete = Some 40\<rparr>])\<rparr>"

definition vanished_cloud :: cloud where
  "vanished_cloud = steady_cloud\<lparr>describe_instance_refreshes := (\<lambda>n. Inr [])\<rparr>"

definition draining_cloud :: cloud where
  "draining_cloud =
     steady_cloud\<lparr>describe_target_health :=
       (\<lambda>n. if n = 0 then Inr [''healthy'', ''draining''] else Inr [''healthy'', ''healthy''])\<rparr>"

text \<open>The object store refuses every write.\<close>

definition readonly_cloud :: cloud where
  "readonly_cloud = steady_cloud\<lparr>put_object_error := (\<lambda>n. Some ClientError)\<rparr>"

definition state_of :: "s3_object list \<Rightarrow> aws_state" where
  "state_of objs =
     \<lparr>bucket = objs, written = [], put_calls = 0, clock_reads = 0, refresh_polls = 0,
      health_polls = 0\<rparr>"

text \<open>The record of the deployment of a day of January 2024, written at instant \<open>t\<close>.\<close>

definition deployed :: "string \<Rightarrow> int \<Rightarrow> string \<Rightarrow> s3_object" where
  "deployed day t st =
     \<lparr>Key = ''deployments/2024-01-'' @ day @ ''T00:00:00.json'', LastModified = t,
      Body = DeploymentDoc
        \<lparr>rec_timestamp = ''2024-01-'' @ day @ ''T00:00:00'', rec_environment = ''dev'',
         rec_version = ''v'' @ day, rec_image = ''app:'' @ day, rec_status = st\<rparr>\<rparr>"

definition short_history :: "s3_object list" where
  "short_history =
     [deployed ''03'' 3 ''failed'', deployed ''01'' 1 ''success'', deployed ''02'' 2 ''success'']"

text \<open>Twenty failed deployments, one a day, then a successful one on the 21st.\<close>

definition long_history :: "s3_object list" where
  "long_history =
     [deployed ''01'' 1 ''failed'', deployed ''02'' 2 ''failed'', deployed ''03'' 3 ''failed'',
      deployed ''04'' 4 ''failed'', deployed ''05'' 5 ''failed'', deployed ''06'' 6 ''failed'',
      deployed ''07'' 7 ''failed'', deployed ''08'' 8 ''failed'', deployed ''09'' 9 ''failed'',
      deployed ''10'' 10 ''failed'', deployed ''11'' 11 ''failed'', deployed ''12'' 12 ''failed'',
      deployed ''13'' 13 ''failed'', deployed ''14'' 14 ''failed'', deployed ''15'' 15 ''failed'',
      deployed ''16'' 16 ''failed'', deployed ''17'' 17 ''failed'', deployed ''18'' 18 ''failed'',
      deployed ''19'' 19 ''failed'', deployed ''20'' 20 ''failed'', deployed ''21'' 21 ''success'']"

text \<open>The documents and end states the concrete runs produce.\<close>

definition record_doc :: "string \<Rightarrow> string \<Rightarrow> string \<Rightarrow> document" where
  "record_doc ver img st =
     DeploymentDoc
       \<lparr>rec_timestamp = ''2024-02-01T00:00:00'', rec_environment = ''dev'', rec_version = ver,
        rec_image = img, rec_status = st\<rparr>"

definition rollback_doc :: document where
  "rollback_doc =
     RollbackDoc
       \<lparr>rb_timestamp = ''2024-02-01T00:00:00'', rb_environment = ''dev'',
        rb_action = ''rollback'', rb_target_version = None, rb_target_image = Some ''app:1.0''\<rparr>"

definition deployments_key :: string where
  "deployments_key = ''deployments/2024-02-01T00:00:00.json''"

section \<open>Facts about the health checker\<close>






section \<open>Facts about the deploy and rollback scripts\<close>

lemma monitor_refresh_result:
  assumes "monitor_refresh polls n = Some res"
  shows "n < snd res \<and>
         (fst res = Inr True \<longrightarrow>
            (\<exists>r rest. polls (snd res - 1) = Inr (r # rest) \<and> Status r = ''Successful''))"
  using assms
proof (induction rule: monitor_refresh.raw_induct[rotated 1, consumes 1])
  case (1 loop polls n res)
  show ?case
  proof (cases "polls n")
    case (Inl e)
    with 1(2) show ?thesis by auto
  next
    case (Inr refreshes)
    show ?thesis
    proof (cases refreshes)
      case Nil
      with Inr 1(2) show ?thesis by auto
    next
      case (Cons r rest)
      show ?thesis
      proof (cases "Status r = ''Successful'' \<or> Status r \<in> set [''Cancelled'', ''Failed'']")
        case True
        with Inr Cons 1(2) show ?thesis by (auto split: if_splits)
      next
        case False
        with Inr Cons 1(2) have "loop polls (n + 1) = Some res" by (auto split: if_splits)
        from 1(1)[OF this] show ?thesis by auto
      qed
    qed
  qed
qed

lemma put_object_effect:
  assumes "put_object cl key body s = (r, s')"
  shows "health_polls s' = health_polls s \<and> refresh_polls s' = refresh_polls s \<and>
         (r = Inr () \<longrightarrow> written s' = written s @ [(key, body)]) \<and>
         (\<forall>e. r = Inl e \<longrightarrow> written s' = written s)"
  using assms by (auto simp: put_object_def split: option.splits)

lemma create_deployment_record_effect:
  assumes "create_deployment_record cl env ver img st s = (r, s')"
  shows "health_polls s' = health_polls s \<and> refresh_polls s' = refresh_polls s \<and>
         (r = Inr () \<longrightarrow>
            (\<exists>key d. written s' = written s @ [(key, DeploymentDoc d)] \<and> rec_status d = st)) \<and>
         (\<forall>e. r = Inl e \<longrightarrow> written s' = written s)"
  using put_object_effect[OF assms[unfolded create_deployment_record_def]] by auto

lemma record_rollback_effect:
  assumes "record_rollback cl env ver img s = (r, s')"
  shows "health_polls s' = health_polls s \<and> refresh_polls s' = refresh_polls s \<and>
         (r = Inr () \<longrightarrow> (\<exists>key d. written s' = written s @ [(key, RollbackDoc d)])) \<and>
         (\<forall>e. r = Inl e \<longrightarrow> written s' = written s)"
  using put_object_effect[OF assms[unfolded record_rollback_def]] by auto

lemma rolling_deployment_effect:
  assumes "rolling_deployment cl img s = Some (r, s')"
  shows "written s' = written s \<and> health_polls s' = health_polls s \<and>
         (r = Inr True \<longrightarrow>
            (\<exists>n rf rest. refresh_polls s \<le> n \<and> refresh_polls s' = n + 1 \<and>
               describe_instance_refreshes cl n = Inr (rf # rest) \<and> Status rf = ''Successful''))"
proof (cases "update_launch_template cl img")
  case (Inl e)
  with assms show ?thesis by (auto simp: rolling_deployment_def)
next
  case (Inr updated)
  show ?thesis
  proof (cases "updated \<and> (\<exists>rid. start_instance_refresh cl = Inr rid)")
    case False
    with Inr assms show ?thesis
      by (auto simp: rolling_deployment_def split: sum.splits if_splits)
  next
    case True
    with Inr assms obtain res where
      m: "monitor_refresh (describe_instance_refreshes cl) (refresh_polls s) = Some res"
      and r: "r = fst res" and s': "s' = s\<lparr>refresh_polls := snd res\<rparr>"
      by (auto simp: rolling_deployment_def split: option.splits)
    from monitor_refresh_result[OF m] have
      lt: "refresh_polls s < snd res" and
      ok: "fst res = Inr True \<longrightarrow>
             (\<exists>rf rest. describe_instance_refreshes cl (snd res - 1) = Inr (rf # rest) \<and>
                Status rf = ''Successful'')"
      by auto
    show ?thesis
    proof (intro conjI impI)
      assume "r = Inr True"
      with ok r obtain rf rest where
        "describe_instance_refreshes cl (snd res - 1) = Inr (rf # rest)"
        "Status rf = ''Successful''"
        by auto
      moreover have "refresh_polls s \<le> snd res - 1" "refresh_polls s' = (snd res - 1) + 1"
        using lt s' by auto
      ultimately show "\<exists>n rf rest. refresh_polls s \<le> n \<and> refresh_polls s' = n + 1 \<and>
               describe_instance_refreshes cl n = Inr (rf # rest) \<and> Status rf = ''Successful''"
        by blast
    qed (simp_all add: s')
  qed
qed

lemma deploy_try_effect:
  assumes "deploy_try cl env ver img s = Some (r, s')"
  shows "health_polls s' = health_polls s \<and>
         (\<forall>e. r = Inl e \<longrightarrow> written s' = written s) \<and>
         (\<forall>code. r = Inr code \<longrightarrow>
            (\<exists>key d. written s' = written s @ [(key, DeploymentDoc d)] \<and>
               rec_status d = (if code = 0 then ''success'' else ''failed'')) \<and>
            (code = 0 \<or> code = 1) \<and>
            (code = 0 \<longrightarrow> (\<exists>n rf rest. refresh_polls s \<le> n \<and> refresh_polls s' = n + 1 \<and>
               describe_instance_refreshes cl n = Inr (rf # rest) \<and> Status rf = ''Successful'')))"
proof -
  from assms obtain r1 s1 where rd: "rolling_deployment cl img s = Some (r1, s1)"
    by (auto simp: deploy_try_def split: option.splits)
  note e1 = rolling_deployment_effect[OF rd]
  show ?thesis
  proof (cases r1)
    case (Inl e)
    with assms rd e1 show ?thesis by (auto simp: deploy_try_def)
  next
    case (Inr success)
    show ?thesis
    proof (cases success)
      case True
      obtain r2 s2 where c: "create_deployment_record cl env ver img ''success'' s1 = (r2, s2)"
        by (cases "create_deployment_record cl env ver img ''success'' s1")
      note e2 = create_deployment_record_effect[OF c]
      from assms rd Inr True c
      have "s' = s2" "r = (case r2 of Inl e \<Rightarrow> Inl e | Inr u \<Rightarrow> Inr 0)"
        by (auto simp: deploy_try_def split: sum.splits)
      with e1 e2 Inr True show ?thesis by (cases r2) auto
    next
      case False
      obtain r2 s2 where c: "create_deployment_record cl env ver img ''failed'' s1 = (r2, s2)"
        by (cases "create_deployment_record cl env ver img ''failed'' s1")
      note e2 = create_deployment_record_effect[OF c]
      from assms rd Inr False c
      have "s' = s2" "r = (case r2 of Inl e \<Rightarrow> Inl e | Inr u \<Rightarrow> Inr 1)"
        by (auto simp: deploy_try_def split: sum.splits)
      with e1 e2 Inr False show ?thesis by (cases r2) auto
    qed
  qed
qed

lemma deploy_main_effect:
  assumes "deploy_main cl env ver img s = Some (x, s')"
  shows "health_polls s' = health_polls s \<and>
         (\<forall>e. x = Uncaught e \<longrightarrow> written s' = written s) \<and>
         (\<forall>code. x = Exit code \<longrightarrow>
            (\<exists>key d. written s' = written s @ [(key, DeploymentDoc d)] \<and>
               rec_status d \<in> {''success'', ''failed'', ''error''} \<and>
               (code = 0 \<longleftrightarrow> rec_status d = ''success'')) \<and>
            (code = 0 \<longrightarrow> (\<exists>n rf rest. refresh_polls s \<le> n \<and> refresh_polls s' = n + 1 \<and>
               describe_instance_refreshes cl n = Inr (rf # rest) \<and> Status rf = ''Successful'')))"
proof -
  from assms obtain r1 s1 where t: "deploy_try cl env ver img s = Some (r1, s1)"
    by (auto simp: deploy_main_def split: option.splits)
  note e1 = deploy_try_effect[OF t]
  show ?thesis
  proof (cases r1)
    case (Inr code)
    with assms t have "x = Exit code" "s' = s1" by (auto simp: deploy_main_def)
    with e1 Inr show ?thesis by auto
  next
    case (Inl e)
    obtain r2 s2 where c: "create_deployment_record cl env ver img ''error'' s1 = (r2, s2)"
      by (cases "create_deployment_record cl env ver img ''error'' s1")
    note e2 = create_deployment_record_effect[OF c]
    from assms t Inl c
    have "s' = s2" "x = (case r2 of Inl e' \<Rightarrow> Uncaught e' | Inr u \<Rightarrow> Exit 1)"
      by (auto simp: deploy_main_def split: sum.splits)
    with e1 e2 Inl show ?thesis by (cases r2) auto
  qed
qed

lemma rollback_refresh_effect:
  assumes "rollback_refresh cl env tv ti s = Some (r, s')"
  shows "if r = Inr True then (\<exists>key d. written s' = written s @ [(key, RollbackDoc d)])
         else written s' = written s"
proof (cases "rollback_launch_template cl ti")
  case (Inl e)
  with assms show ?thesis by (auto simp: rollback_refresh_def)
next
  case (Inr pointed)
  show ?thesis
  proof (cases "pointed \<and> (\<exists>rid. start_instance_refresh cl = Inr rid)")
    case False
    with Inr assms show ?thesis
      by (auto simp: rollback_refresh_def split: sum.splits if_splits)
  next
    case True
    with Inr assms obtain res n where
      m: "monitor_refresh (describe_instance_refreshes cl) (refresh_polls s) = Some (res, n)"
      by (auto simp: rollback_refresh_def split: option.splits)
    show ?thesis
    proof (cases "res = Inr True")
      case False
      with True Inr assms m show ?thesis
        by (auto simp: rollback_refresh_def split: sum.splits if_splits)
    next
      case ok: True
      obtain r2 s2 where c: "record_rollback cl env tv ti (s\<lparr>refresh_polls := n\<rparr>) = (r2, s2)"
        by (cases "record_rollback cl env tv ti (s\<lparr>refresh_polls := n\<rparr>)")
      note e2 = record_rollback_effect[OF c]
      from True Inr assms m ok c
      have "s' = s2" "r = (case r2 of Inl e \<Rightarrow> Inl e | Inr u \<Rightarrow> Inr True)"
        by (auto simp: rollback_refresh_def split: sum.splits)
      with e2 show ?thesis by (cases r2) auto
    qed
  qed
qed

lemma rollback_to_version_effect:
  assumes "rollback_to_version cl env tv ti s = Some (r, s')"
  shows "if r = Inr True then (\<exists>key d. written s' = written s @ [(key, RollbackDoc d)])
         else written s' = written s"
proof (cases "rollback_target cl tv ti s")
  case (Inl e)
  with assms show ?thesis by (auto simp: rollback_to_version_def)
next
  case (Inr target)
  show ?thesis
  proof (cases target)
    case None
    with Inr assms show ?thesis by (auto simp: rollback_to_version_def)
  next
    case (Some p)
    with Inr assms have "rollback_refresh cl env (fst p) (snd p) s = Some (r, s')"
      by (cases p) (auto simp: rollback_to_version_def)
    from rollback_refresh_effect[OF this] show ?thesis .
  qed
qed

lemma rollback_main_effect:
  assumes "rollback_main cl env pv img s = Some (code, s')"
  shows "(code = 0 \<or> code = 1) \<and>
         (if code = 0 then (\<exists>key d. written s' = written s @ [(key, RollbackDoc d)])
          else written s' = written s)"
proof -
  from assms obtain r where
    t: "rollback_to_version cl env (map_option VersionInt pv) img s = Some (r, s')"
    and c: "code = (case r of Inl e \<Rightarrow> 1 | Inr success \<Rightarrow> if success then 0 else 1)"
    by (auto simp: rollback_main_def split: option.splits sum.splits)
  from rollback_to_version_effect[OF t] c show ?thesis
    by (cases r) (auto split: if_splits)
qed

lemma store_object_key:
  "filter (\<lambda>obj. Key obj = key) (store_object key t body objs) =
     [\<lparr>Key = key, LastModified = t, Body = body\<rparr>]"
  by (induction objs) (auto simp: store_object_def)

lemma verify_attempts_True:
  "verify_attempts polls left n = (Inr True, m) \<Longrightarrow>
     n < m \<and> m \<le> n + left \<and>
     (\<exists>states. polls (m - 1) = Inr states \<and>
        length (filter (\<lambda>st. st = ''healthy'') states) = length states \<and> 0 < length states)"
proof (induction left arbitrary: n)
  case 0
  then show ?case by simp
next
  case (Suc left)
  show ?case
  proof (cases "polls n")
    case (Inl e)
    with Suc.prems show ?thesis by simp
  next
    case (Inr states)
    show ?thesis
    proof (cases "length (filter (\<lambda>st. st = ''healthy'') states) = length states
                  \<and> 0 < length states")
      case True
      with Inr Suc.prems have "m = n + 1" by (simp add: Let_def)
      with True Inr show ?thesis by auto
    next
      case False
      with Inr Suc.prems have "verify_attempts polls left (n + 1) = (Inr True, m)"
        by (auto simp: Let_def)
      from Suc.IH[OF this] show ?thesis by auto
    qed
  qed
qed

lemma first_successful_Some:
  "first_successful history = Some d \<Longrightarrow> d \<in> set history \<and> get_status d = Some ''success''"
  by (induction history) (auto split: if_splits)

lemma get_deployment_history_subset:
  "set (get_deployment_history cl limit s) \<subseteq> Body ` set (bucket s)"
proof -
  have "set (list_objects_v2 (bucket s) ''deployments/'' limit) \<subseteq> set (bucket s)"
    unfolding list_objects_v2_def
    by (rule subset_trans[OF set_take_subset]) auto
  then show ?thesis
    by (auto simp: get_deployment_history_def Let_def sorted_reverse_def split: option.splits)
qed

lemmas deploy_run =
  deploy_main_def deploy_try_def rolling_deployment_def update_launch_template_def
  create_deployment_record_def put_object_def store_object_def monitor_refresh.simps
  state_of_def steady_cloud_def record_doc_def deployments_key_def

lemmas rollback_run =
  rollback_main_def rollback_to_version_def rollback_target_def rollback_refresh_def
  rollback_launch_template_def get_launch_template_versions_def create_rollback_version_def
  record_rollback_def put_object_def store_object_def monitor_refresh.simps state_of_def
  steady_cloud_def rollback_doc_def

lemmas history_run =
  find_previous_successful_deployment_def get_deployment_history_def list_objects_v2_def
  sorted_reverse_def steady_cloud_def state_of_def deployed_def

section \<open>The claims\<close>

text \<open>
  Claim C1. A deploy run that exits with code 0 has seen a poll of the refresh answer
  \<open>Successful\<close> and has written a record of status \<open>success\<close>. No deploy run, whatever its
  end, polls the target group: \<open>verify_deployment\<close> is not part of \<open>main\<close>, so the success of
  a deploy rests on the refresh alone.
\<close>

theorem deploy_success_rests_on_refresh_alone:
  "(deploy_main cl env ver img s = Some (Exit 0, s') \<longrightarrow>
      (\<exists>n rf rest. refresh_polls s \<le> n \<and> refresh_polls s' = n + 1 \<and>
         describe_instance_refreshes cl n = Inr (rf # rest) \<and> Status rf = ''Successful'') \<and>
      (\<exists>key d. written s' = written s @ [(key, DeploymentDoc d)] \<and> rec_status d = ''success''))
   \<and> (deploy_main cl env ver img s = Some (x, s'') \<longrightarrow> health_polls s'' = health_polls s)"
proof (intro conjI impI)
  assume a: "deploy_main cl env ver img s = Some (Exit 0, s')"
  from deploy_main_effect[OF a]
  show "\<exists>n rf rest. refresh_polls s \<le> n \<and> refresh_polls s' = n + 1 \<and>
         describe_instance_refreshes cl n = Inr (rf # rest) \<and> Status rf = ''Successful''"
    by simp
  from deploy_main_effect[OF a]
  show "\<exists>key d. written s' = written s @ [(key, DeploymentDoc d)] \<and> rec_status d = ''success''"
    by auto
next
  assume "deploy_main cl env ver img s = Some (x, s'')"
  from deploy_main_effect[OF this] show "health_polls s'' = health_polls s" by simp
qed

text \<open>
  The theorem at a run whose refresh is in progress for two polls and successful at the
  third.
\<close>

theorem deploy_success_rests_on_refresh_alone_witness:
  "\<exists>s'. deploy_main slow_cloud ''dev'' ''v2'' ''app:2.0'' (state_of []) = Some (Exit 0, s')
     \<and> (\<exists>n rf rest. refresh_polls (state_of []) \<le> n \<and> refresh_polls s' = n + 1 \<and>
          describe_instance_refreshes slow_cloud n = Inr (rf # rest) \<and> Status rf = ''Successful'')
     \<and> (\<exists>key d. written s' = written (state_of []) @ [(key, DeploymentDoc d)] \<and>
          rec_status d = ''success'')
     \<and> health_polls s' = health_polls (state_of [])"
proof -
  have "\<exists>s'. deploy_main slow_cloud ''dev'' ''v2'' ''app:2.0'' (state_of []) = Some (Exit 0, s')"
    by (simp add: deploy_run slow_cloud_def)
  then obtain s' where
    run: "deploy_main slow_cloud ''dev'' ''v2'' ''app:2.0'' (state_of []) = Some (Exit 0, s')" ..
  from deploy_success_rests_on_refresh_alone
    [where cl = slow_cloud and env = "''dev''" and ver = "''v2''" and img = "''app:2.0''"
       and s = "state_of []" and s' = s' and x = "Exit 0" and s'' = s'] run
  show ?thesis by blast
qed

text \<open>
  Against C1 as stated: the refresh succeeds while the target group is empty. The deploy
  exits with 0 and records \<open>success\<close> without one poll of the target group, although
  \<open>verify_deployment\<close> fails on that group.
\<close>

theorem deploy_succeeds_on_an_unverified_fleet:
  "deploy_main emptied_cloud ''dev'' ''v2'' ''app:2.0'' (state_of []) =
     Some (Exit 0,
       \<lparr>bucket = [\<lparr>Key = deployments_key, LastModified = 100,
                    Body = record_doc ''v2'' ''app:2.0'' ''success''\<rparr>],
        written = [(deployments_key, record_doc ''v2'' ''app:2.0'' ''success'')],
        put_calls = 1, clock_reads = 2, refresh_polls = 1, health_polls = 0\<rparr>)
   \<and> fst (verify_deployment emptied_cloud (state_of [])) = Inr False"
  by (simp add: deploy_run emptied_cloud_def verify_deployment_def eval_nat_numeral)

text \<open>
  Claim C2. A deploy run that ends through \<open>sys.exit\<close> has written exactly one deployment
  record, of status \<open>success\<close> exactly when the code is 0 and of status \<open>failed\<close> or \<open>error\<close>
  otherwise; a deploy run that ends in an exception of the handler's own write has written
  none. A rollback run writes one rollback record when it exits with 0, and none when it
  exits with 1: a rollback whose refresh fails, or which raises, leaves no record.
\<close>

theorem records_written_by_an_attempt:
  "(deploy_main cl env ver img s = Some (Exit code, s') \<longrightarrow>
      (\<exists>key d. written s' = written s @ [(key, DeploymentDoc d)] \<and>
         rec_status d \<in> {''success'', ''failed'', ''error''} \<and>
         (code = 0 \<longleftrightarrow> rec_status d = ''success'')))
   \<and> (deploy_main cl env ver img s = Some (Uncaught e, s') \<longrightarrow> written s' = written s)
   \<and> (rollback_main cl env pv target_image s = Some (rcode, s'') \<longrightarrow>
      (rcode = 0 \<or> rcode = 1) \<and>
      (if rcode = 0 then (\<exists>key d. written s'' = written s @ [(key, RollbackDoc d)])
       else written s'' = written s))"
proof (intro conjI impI)
  assume "deploy_main cl env ver img s = Some (Exit code, s')"
  from deploy_main_effect[OF this]
  show "\<exists>key d. written s' = written s @ [(key, DeploymentDoc d)] \<and>
         rec_status d \<in> {''success'', ''failed'', ''error''} \<and>
         (code = 0 \<longleftrightarrow> rec_status d = ''success'')"
    by simp
next
  assume "deploy_main cl env ver img s = Some (Uncaught e, s')"
  from deploy_main_effect[OF this] show "written s' = written s" by simp
next
  assume a: "rollback_main cl env pv target_image s = Some (rcode, s'')"
  from rollback_main_effect[OF a] show "rcode = 0 \<or> rcode = 1" by simp
  from rollback_main_effect[OF a]
  show "if rcode = 0 then (\<exists>key d. written s'' = written s @ [(key, RollbackDoc d)])
        else written s'' = written s"
    by simp
qed

text \<open>
  The theorem at four runs: a deploy whose refresh fails, a deploy against a store that
  refuses every write, a rollback that succeeds and a rollback whose refresh fails.
\<close>

theorem records_written_by_an_attempt_witness:
  "(\<exists>s'. deploy_main failed_cloud ''dev'' ''v2'' ''app:2.0'' (state_of []) = Some (Exit 1, s')
      \<and> (\<exists>key d. written s' = written (state_of []) @ [(key, DeploymentDoc d)] \<and>
            rec_status d \<in> {''success'', ''failed'', ''error''} \<and> rec_status d \<noteq> ''success''))
   \<and> (\<exists>s'. deploy_main readonly_cloud ''dev'' ''v2'' ''app:2.0'' (state_of []) =
              Some (Uncaught ClientError, s')
      \<and> written s' = written (state_of []))
   \<and> (\<exists>s'. rollback_main steady_cloud ''dev'' None (Some ''app:1.0'') (state_of []) = Some (0, s')
      \<and> (\<exists>key d. written s' = written (state_of []) @ [(key, RollbackDoc d)]))
   \<and> (\<exists>s'. rollback_main failed_cloud ''dev'' None (Some ''app:1.0'') (state_of []) = Some (1, s')
      \<and> written s' = written (state_of []))"
proof -
  have "\<exists>s'. deploy_main failed_cloud ''dev'' ''v2'' ''app:2.0'' (state_of []) = Some (Exit 1, s')"
    by (simp add: deploy_run failed_cloud_def)
  then obtain s1 where
    r1: "deploy_main failed_cloud ''dev'' ''v2'' ''app:2.0'' (state_of []) = Some (Exit 1, s1)" ..
  have "\<exists>s'. deploy_main readonly_cloud ''dev'' ''v2'' ''app:2.0'' (state_of []) =
          Some (Uncaught ClientError, s')"
    by (simp add: deploy_run readonly_cloud_def)
  then obtain s2 where
    r2: "deploy_main readonly_cloud ''dev'' ''v2'' ''app:2.0'' (state_of []) =
           Some (Uncaught ClientError, s2)" ..
  have "\<exists>s'. rollback_main steady_cloud ''dev'' None (Some ''app:1.0'') (state_of []) = Some (0, s')"
    by (simp add: rollback_run)
  then obtain s3 where
    r3: "rollback_main steady_cloud ''dev'' None (Some ''app:1.0'') (state_of []) = Some (0, s3)" ..
  have "\<exists>s'. rollback_main failed_cloud ''dev'' None (Some ''app:1.0'') (state_of []) = Some (1, s')"
    by (simp add: rollback_run failed_cloud_def)
  then obtain s4 where
    r4: "rollback_main failed_cloud ''dev'' None (Some ''app:1.0'') (state_of []) = Some (1, s4)" ..
  note t = records_written_by_an_attempt
  from t[where cl = failed_cloud and env = "''dev''" and ver = "''v2''" and img = "''app:2.0''"
           and s = "state_of []" and code = 1 and s' = s1] r1
  have c1: "\<exists>key d. written s1 = written (state_of []) @ [(key, DeploymentDoc d)] \<and>
              rec_status d \<in> {''success'', ''failed'', ''error''} \<and> rec_status d \<noteq> ''success''"
    by simp
  from t[where cl = readonly_cloud and env = "''dev''" and ver = "''v2''" and img = "''app:2.0''"
           and s = "state_of []" and e = ClientError and s' = s2] r2
  have c2: "written s2 = written (state_of [])" by blast
  from t[where cl = steady_cloud and env = "''dev''" and pv = None
           and target_image = "Some ''app:1.0''" and s = "state_of []" and rcode = 0 and s'' = s3] r3
  have c3: "\<exists>key d. written s3 = written (state_of []) @ [(key, RollbackDoc d)]" by simp
  from t[where cl = failed_cloud and env = "''dev''" and pv = None
           and target_image = "Some ''app:1.0''" and s = "state_of []" and rcode = 1 and s'' = s4] r4
  have c4: "written s4 = written (state_of [])" by simp
  from r1 c1 r2 c2 r3 c3 r4 c4 show ?thesis by blast
qed

text \<open>
  Against C2 as stated: a rollback whose refresh fails exits with 1 and leaves the store as
  it found it, with no record written.
\<close>

theorem failed_rollback_leaves_no_record:
  "rollback_main failed_cloud ''dev'' None (Some ''app:1.0'') (state_of []) =
     Some (1, \<lparr>bucket = [], written = [], put_calls = 0, clock_reads = 0, refresh_polls = 1,
               health_polls = 0\<rparr>)"
  by (simp add: rollback_run failed_cloud_def)

text \<open>
  Claim C3. The history lookup against the specification's \<open>findLatestSuccessful\<close>, at a
  history of 21 records of which only the newest is successful: the listing is cut to the 20
  smallest keys before it is sorted by date, so the lookup scans the 20 oldest records and
  finds nothing, where the newest-first scan of the specification returns the newest record.
\<close>

theorem find_previous_misses_newest_success:
  "find_previous_successful_deployment steady_cloud (state_of long_history) = None \<and>
   spec_findLatestSuccessful long_history 20 = Some (Body (deployed ''21'' 21 ''success''))"
  by (simp add: history_run long_history_def spec_findLatestSuccessful_def spec_recent_def)

text \<open>
  Claim C4. A poll that returns no refresh ends \<open>monitor_refresh\<close> at once with \<open>False\<close>, and
  so does a poll whose refresh is \<open>Failed\<close> or \<open>Cancelled\<close>: the two ends are the same value,
  and no error of its own is raised for the missing refresh.
\<close>

theorem monitor_refresh_not_found_is_false:
  "(polls n = Inr [] \<longrightarrow> monitor_refresh polls n = Some (Inr False, n + 1)) \<and>
   (polls n = Inr (r # rest) \<and> Status r \<in> {''Failed'', ''Cancelled''} \<longrightarrow>
      monitor_refresh polls n = Some (Inr False, n + 1))"
proof (intro conjI impI)
  assume "polls n = Inr []"
  then show "monitor_refresh polls n = Some (Inr False, n + 1)"
    by (subst monitor_refresh.simps) simp
next
  assume "polls n = Inr (r # rest) \<and> Status r \<in> {''Failed'', ''Cancelled''}"
  then show "monitor_refresh polls n = Some (Inr False, n + 1)"
    by (subst monitor_refresh.simps) auto
qed

theorem monitor_refresh_not_found_is_false_witness:
  "describe_instance_refreshes vanished_cloud 0 = Inr [] \<and>
   monitor_refresh (describe_instance_refreshes vanished_cloud) 0 = Some (Inr False, 0 + 1) \<and>
   describe_instance_refreshes failed_cloud 0 =
     Inr (\<lparr>Status = ''Failed'', PercentageComplete = Some 40\<rparr> # []) \<and>
   Status \<lparr>Status = ''Failed'', PercentageComplete = Some 40\<rparr> \<in> {''Failed'', ''Cancelled''} \<and>
   monitor_refresh (describe_instance_refreshes failed_cloud) 0 = Some (Inr False, 0 + 1)"
proof -
  have a: "describe_instance_refreshes vanished_cloud 0 = Inr []"
    by (simp add: vanished_cloud_def steady_cloud_def)
  have b: "describe_instance_refreshes failed_cloud 0 =
             Inr (\<lparr>Status = ''Failed'', PercentageComplete = Some 40\<rparr> # [])"
    by (simp add: failed_cloud_def steady_cloud_def)
  have c: "Status \<lparr>Status = ''Failed'', PercentageComplete = Some 40\<rparr> \<in> {''Failed'', ''Cancelled''}"
    by simp
  note t = monitor_refresh_not_found_is_false
  from t[where polls = "describe_instance_refreshes vanished_cloud" and n = 0] a
  have d: "monitor_refresh (describe_instance_refreshes vanished_cloud) 0 = Some (Inr False, 0 + 1)"
    by blast
  from t[where polls = "describe_instance_refreshes failed_cloud" and n = 0
           and r = "\<lparr>Status = ''Failed'', PercentageComplete = Some 40\<rparr>" and rest = "[]"] b c
  have e: "monitor_refresh (describe_instance_refreshes failed_cloud) 0 = Some (Inr False, 0 + 1)"
    by blast
  from a b c d e show ?thesis by blast
qed

text \<open>
  Against C4 as stated: a refresh that has vanished and a refresh that has failed give the
  same result of \<open>monitor_refresh\<close>, the same deploy run (exit code, record and store) and
  the same rollback run, so no caller can tell them apart.
\<close>

theorem vanished_refresh_looks_like_failed_refresh:
  "monitor_refresh (describe_instance_refreshes vanished_cloud) 0 = Some (Inr False, 1)
   \<and> monitor_refresh (describe_instance_refreshes failed_cloud) 0 = Some (Inr False, 1)
   \<and> deploy_main vanished_cloud ''dev'' ''v2'' ''app:2.0'' (state_of []) =
     deploy_main failed_cloud ''dev'' ''v2'' ''app:2.0'' (state_of [])
   \<and> rollback_main vanished_cloud ''dev'' None (Some ''app:1.0'') (state_of []) =
     rollback_main failed_cloud ''dev'' None (Some ''app:1.0'') (state_of [])"
  by (simp add: deploy_run rollback_run failed_cloud_def vanished_cloud_def)



text \<open>
  Claim C6. Two calls of \<open>create_deployment_record\<close> whose keys are the same timestamp, both
  accepted by the store: after the first call the key holds the first record, after the
  second it holds the second record alone. The second write is neither refused nor dropped;
  it replaces the first (\<open>record_rollback\<close> writes through the same \<open>put_object\<close>).
\<close>

theorem second_record_replaces_first:
  assumes "put_object_error cl (put_calls s) = None"
    and "put_object_error cl (put_calls s + 1) = None"
    and "isoformat_now cl (clock_reads s + 2) = isoformat_now cl (clock_reads s)"
    and "create_deployment_record cl env ver img st s = (r, s1)"
    and "create_deployment_record cl env' ver' img' st' s1 = (r', s2)"
  shows "r = Inr () \<and> r' = Inr () \<and>
         map Body (filter (\<lambda>obj. Key obj =
             ''deployments/'' @ isoformat_now cl (clock_reads s) @ ''.json'') (bucket s1)) =
           [DeploymentDoc
              \<lparr>rec_timestamp = isoformat_now cl (clock_reads s + 1), rec_environment = env,
               rec_version = ver, rec_image = img, rec_status = st\<rparr>] \<and>
         map Body (filter (\<lambda>obj. Key obj =
             ''deployments/'' @ isoformat_now cl (clock_reads s) @ ''.json'') (bucket s2)) =
           [DeploymentDoc
              \<lparr>rec_timestamp = isoformat_now cl (clock_reads s + 3), rec_environment = env',
               rec_version = ver', rec_image = img', rec_status = st'\<rparr>]"
proof -
  let ?key = "''deployments/'' @ isoformat_now cl (clock_reads s) @ ''.json''"
  from assms(1,4) have 1: "r = Inr ()" "put_calls s1 = put_calls s + 1"
      "clock_reads s1 = clock_reads s + 2"
    and b1: "bucket s1 = store_object ?key (s3_clock cl (put_calls s))
        (DeploymentDoc
           \<lparr>rec_timestamp = isoformat_now cl (clock_reads s + 1), rec_environment = env,
            rec_version = ver, rec_image = img, rec_status = st\<rparr>) (bucket s)"
    by (auto simp: create_deployment_record_def put_object_def)
  from assms(2,3,5) 1 have 2: "r' = Inr ()"
    and b2: "bucket s2 = store_object ?key (s3_clock cl (put_calls s + 1))
        (DeploymentDoc
           \<lparr>rec_timestamp = isoformat_now cl (clock_reads s + 3), rec_environment = env',
            rec_version = ver', rec_image = img', rec_status = st'\<rparr>) (bucket s1)"
    by (auto simp: create_deployment_record_def put_object_def eval_nat_numeral)
  show ?thesis
    using 1(1) 2 by (simp add: b1 b2 store_object_key)
qed

text \<open>The theorem at two records written while the clock stands still.\<close>

theorem second_record_replaces_first_witness:
  "put_object_error steady_cloud (put_calls (state_of [])) = None \<and>
   put_object_error steady_cloud (put_calls (state_of []) + 1) = None \<and>
   isoformat_now steady_cloud (clock_reads (state_of []) + 2) =
     isoformat_now steady_cloud (clock_reads (state_of [])) \<and>
   (\<exists>s1 s2.
      create_deployment_record steady_cloud ''dev'' ''v1'' ''app:1.0'' ''success'' (state_of []) =
        (Inr (), s1) \<and>
      create_deployment_record steady_cloud ''dev'' ''v2'' ''app:2.0'' ''failed'' s1 = (Inr (), s2) \<and>
      map Body (filter (\<lambda>obj. Key obj = deployments_key) (bucket s1)) =
        [record_doc ''v1'' ''app:1.0'' ''success''] \<and>
      map Body (filter (\<lambda>obj. Key obj = deployments_key) (bucket s2)) =
        [record_doc ''v2'' ''app:2.0'' ''failed''])"
proof -
  obtain r s1 where
    c1: "create_deployment_record steady_cloud ''dev'' ''v1'' ''app:1.0'' ''success'' (state_of []) =
           (r, s1)"
    by (cases "create_deployment_record steady_cloud ''dev'' ''v1'' ''app:1.0'' ''success''
                 (state_of [])")
  obtain r' s2 where
    c2: "create_deployment_record steady_cloud ''dev'' ''v2'' ''app:2.0'' ''failed'' s1 = (r', s2)"
    by (cases "create_deployment_record steady_cloud ''dev'' ''v2'' ''app:2.0'' ''failed'' s1")
  have h: "put_object_error steady_cloud (put_calls (state_of [])) = None"
    "put_object_error steady_cloud (put_calls (state_of []) + 1) = None"
    "isoformat_now steady_cloud (clock_reads (state_of []) + 2) =
       isoformat_now steady_cloud (clock_reads (state_of []))"
    by (simp_all add: steady_cloud_def)
  have k: "''deployments/'' @ isoformat_now steady_cloud (clock_reads (state_of [])) @ ''.json'' =
             deployments_key"
    "isoformat_now steady_cloud (clock_reads (state_of []) + 1) = ''2024-02-01T00:00:00''"
    "isoformat_now steady_cloud (clock_reads (state_of []) + 3) = ''2024-02-01T00:00:00''"
    by (simp_all add: steady_cloud_def deployments_key_def)
  note t = second_record_replaces_first[OF h c1 c2, unfolded k]
  have "create_deployment_record steady_cloud ''dev'' ''v1'' ''app:1.0'' ''success'' (state_of []) =
          (Inr (), s1) \<and>
        create_deployment_record steady_cloud ''dev'' ''v2'' ''app:2.0'' ''failed'' s1 = (Inr (), s2) \<and>
        map Body (filter (\<lambda>obj. Key obj = deployments_key) (bucket s1)) =
          [record_doc ''v1'' ''app:1.0'' ''success''] \<and>
        map Body (filter (\<lambda>obj. Key obj = deployments_key) (bucket s2)) =
          [record_doc ''v2'' ''app:2.0'' ''failed'']"
    using t c1 c2 by (simp add: record_doc_def)
  then have "\<exists>s1 s2.
      create_deployment_record steady_cloud ''dev'' ''v1'' ''app:1.0'' ''success'' (state_of []) =
        (Inr (), s1) \<and>
      create_deployment_record steady_cloud ''dev'' ''v2'' ''app:2.0'' ''failed'' s1 = (Inr (), s2) \<and>
      map Body (filter (\<lambda>obj. Key obj = deployments_key) (bucket s1)) =
        [record_doc ''v1'' ''app:1.0'' ''success''] \<and>
      map Body (filter (\<lambda>obj. Key obj = deployments_key) (bucket s2)) =
        [record_doc ''v2'' ''app:2.0'' ''failed'']"
    by (intro exI)
  with h show ?thesis by (intro conjI)
qed

text \<open>
  Against C6 as stated: with the clock standing still, the record of a successful
  deployment of v1 is stored first; the record of a failed deployment of v2 gets the same
  key, is accepted, and is the only object left in the bucket.
\<close>

theorem same_key_overwrites_the_record:
  "snd (create_deployment_record steady_cloud ''dev'' ''v1'' ''app:1.0'' ''success'' (state_of [])) =
     \<lparr>bucket = [\<lparr>Key = deployments_key, LastModified = 100,
                  Body = record_doc ''v1'' ''app:1.0'' ''success''\<rparr>],
      written = [(deployments_key, record_doc ''v1'' ''app:1.0'' ''success'')],
      put_calls = 1, clock_reads = 2, refresh_polls = 0, health_polls = 0\<rparr>
   \<and> create_deployment_record steady_cloud ''dev'' ''v2'' ''app:2.0'' ''failed''
       (snd (create_deployment_record steady_cloud ''dev'' ''v1'' ''app:1.0'' ''success''
               (state_of []))) =
     (Inr (),
      \<lparr>bucket = [\<lparr>Key = deployments_key, LastModified = 101,
                   Body = record_doc ''v2'' ''app:2.0'' ''failed''\<rparr>],
       written = [(deployments_key, record_doc ''v1'' ''app:1.0'' ''success''),
                  (deployments_key, record_doc ''v2'' ''app:2.0'' ''failed'')],
       put_calls = 2, clock_reads = 4, refresh_polls = 0, health_polls = 0\<rparr>)"
  by (simp add: create_deployment_record_def put_object_def store_object_def state_of_def
      steady_cloud_def record_doc_def deployments_key_def)




text \<open>
  Claim C8. When \<open>verify_deployment\<close> returns \<open>True\<close>, it has made between 1 and 20 polls, and
  the last of them observed at least one target with every target healthy. A poll that
  observes no target therefore never gives success.
\<close>

theorem verify_deployment_needs_a_full_nonempty_fleet:
  assumes "verify_deployment cl s = (Inr True, s')"
  shows "health_polls s < health_polls s' \<and> health_polls s' \<le> health_polls s + 20 \<and>
         (\<exists>states. describe_target_health cl (health_polls s' - 1) = Inr states \<and>
            length (filter (\<lambda>st. st = ''healthy'') states) = length states \<and>
            0 < length states)"
proof -
  from assms obtain m where
    v: "verify_attempts (describe_target_health cl) 20 (health_polls s) = (Inr True, m)"
    and s': "s' = s\<lparr>health_polls := m\<rparr>"
    by (auto simp: verify_deployment_def split: prod.splits)
  from verify_attempts_True[OF v] s' show ?thesis by simp
qed

text \<open>
  The theorem at a target group with one target draining at the first poll and two healthy
  targets at the second.
\<close>

theorem verify_deployment_needs_a_full_nonempty_fleet_witness:
  "verify_deployment draining_cloud (state_of []) = (Inr True, (state_of [])\<lparr>health_polls := 2\<rparr>) \<and>
   describe_target_health draining_cloud 1 = Inr [''healthy'', ''healthy''] \<and>
   (\<exists>states. describe_target_health draining_cloud
        (health_polls ((state_of [])\<lparr>health_polls := 2\<rparr>) - 1) = Inr states \<and>
      length (filter (\<lambda>st. st = ''healthy'') states) = length states \<and> 0 < length states)"
proof -
  have run: "verify_deployment draining_cloud (state_of []) =
               (Inr True, (state_of [])\<lparr>health_polls := 2\<rparr>)"
    by (simp add: verify_deployment_def draining_cloud_def steady_cloud_def state_of_def
        eval_nat_numeral)
  have "describe_target_health draining_cloud 1 = Inr [''healthy'', ''healthy'']"
    by (simp add: draining_cloud_def steady_cloud_def)
  with verify_deployment_needs_a_full_nonempty_fleet[OF run] run show ?thesis by blast
qed

text \<open>
  Claim C9. The record that \<open>find_previous_successful_deployment\<close> returns is a document of
  the bucket whose status is \<open>success\<close>. When \<open>rollback_to_version\<close> is given neither a
  version nor an image, the version and the image it rolls back to are those of such a
  record; a record whose status is \<open>failed\<close> or \<open>error\<close> is never its source.
\<close>

theorem rollback_target_comes_from_a_successful_record:
  "(find_previous_successful_deployment cl s = Some d \<longrightarrow>
      get_status d = Some ''success'' \<and> d \<in> Body ` set (bucket s))
   \<and> (\<not> truthy_version tv \<and> \<not> truthy_image ti \<and>
        rollback_target cl tv ti s = Inr (Some (ver, img)) \<longrightarrow>
      (\<exists>rec. DeploymentDoc rec \<in> Body ` set (bucket s) \<and> rec_status rec = ''success'' \<and>
         ver = Some (VersionStr (rec_version rec)) \<and> img = Some (rec_image rec)))"
proof (intro conjI impI)
  assume a: "find_previous_successful_deployment cl s = Some d"
  from first_successful_Some[OF a[unfolded find_previous_successful_deployment_def]]
    get_deployment_history_subset[of cl 20 s]
  show "get_status d = Some ''success''" "d \<in> Body ` set (bucket s)" by auto
next
  assume a: "\<not> truthy_version tv \<and> \<not> truthy_image ti \<and>
             rollback_target cl tv ti s = Inr (Some (ver, img))"
  then have h: "\<not> truthy_version tv \<and> \<not> truthy_image ti"
    and t: "rollback_target cl tv ti s = Inr (Some (ver, img))"
    by simp_all
  from t h obtain d where f: "find_previous_successful_deployment cl s = Some d"
    and v: "get_version d = Inr (case ver of Some (VersionStr x) \<Rightarrow> x | _ \<Rightarrow> [])"
      "ver = Some (VersionStr (case ver of Some (VersionStr x) \<Rightarrow> x | _ \<Rightarrow> []))"
    and i: "get_image d = Inr (case img of Some x \<Rightarrow> x | None \<Rightarrow> [])"
      "img = Some (case img of Some x \<Rightarrow> x | None \<Rightarrow> [])"
    by (auto simp: rollback_target_def split: option.splits sum.splits)
  from first_successful_Some[OF f[unfolded find_previous_successful_deployment_def]]
    get_deployment_history_subset[of cl 20 s]
  have st: "get_status d = Some ''success''" and m: "d \<in> Body ` set (bucket s)" by auto
  from st obtain rec where d: "d = DeploymentDoc rec" by (cases d) auto
  with st v i m
  show "\<exists>rec. DeploymentDoc rec \<in> Body ` set (bucket s) \<and> rec_status rec = ''success'' \<and>
         ver = Some (VersionStr (rec_version rec)) \<and> img = Some (rec_image rec)"
    by (intro exI[of _ rec]) auto
qed

text \<open>
  The theorem at a history of three records, the newest failed and the two before it
  successful: the rollback target is the second.
\<close>

theorem rollback_target_comes_from_a_successful_record_witness:
  "find_previous_successful_deployment steady_cloud (state_of short_history) =
     Some (Body (deployed ''02'' 2 ''success'')) \<and>
   get_status (Body (deployed ''02'' 2 ''success'')) = Some ''success'' \<and>
   \<not> truthy_version None \<and> \<not> truthy_image None \<and>
   rollback_target steady_cloud None None (state_of short_history) =
     Inr (Some (Some (VersionStr ''v02''), Some ''app:02'')) \<and>
   (\<exists>rec. DeploymentDoc rec \<in> Body ` set (bucket (state_of short_history)) \<and>
      rec_status rec = ''success'' \<and> Some (VersionStr ''v02'') = Some (VersionStr (rec_version rec)) \<and>
      Some ''app:02'' = Some (rec_image rec))"
proof -
  have f: "find_previous_successful_deployment steady_cloud (state_of short_history) =
             Some (Body (deployed ''02'' 2 ''success''))"
    by (simp add: history_run short_history_def)
  have t: "rollback_target steady_cloud None None (state_of short_history) =
             Inr (Some (Some (VersionStr ''v02''), Some ''app:02''))"
    by (simp add: rollback_target_def f deployed_def)
  have n: "\<not> truthy_version None \<and> \<not> truthy_image None" by simp
  note inst = rollback_target_comes_from_a_successful_record
    [where cl = steady_cloud and s = "state_of short_history"
       and d = "Body (deployed ''02'' 2 ''success'')" and tv = None and ti = None
       and ver = "Some (VersionStr ''v02'')" and img = "Some ''app:02''"]
  from inst f have "get_status (Body (deployed ''02'' 2 ''success'')) = Some ''success''"
    by blast
  moreover from inst t n
  have "\<exists>rec. DeploymentDoc rec \<in> Body ` set (bucket (state_of short_history)) \<and>
      rec_status rec = ''success'' \<and> Some (VersionStr ''v02'') = Some (VersionStr (rec_version rec)) \<and>
      Some ''app:02'' = Some (rec_image rec)"
    by blast
  ultimately show ?thesis using f t n by (intro conjI) simp_all
qed




end
